theory Spec2Isabelle
  imports Main
begin

section \<open>The background script of the AMQ autopause extension\<close>

text \<open>
  The development follows the background entry point (the variant that checks the stored
  Twitch session before connecting): the closure variables \<open>eventSource\<close> and
  \<open>reconnectAttempts\<close>, the function \<open>connectSSE\<close> with the three handlers it installs
  on the \<open>EventSource\<close>, \<open>sendPauseToAMQ\<close>, the \<open>runtime.onMessage\<close> listener and the
  \<open>storage.onChanged\<close> listener.

  Every handler runs to completion on the single JavaScript thread, so a handler is a
  function from the world before it to the world after it. \<open>connectSSE\<close> awaits one
  storage read before it touches anything; the read and the rest of the function are taken
  as one step. Console output is not part of the world; the lines that the pause listener
  and \<open>sendPauseToAMQ\<close> write about a pause event are returned as a list.
\<close>

subsection \<open>Data\<close>

text \<open>\<open>EventSource.readyState\<close>.\<close>

datatype ReadyState = CONNECTING | OPEN | CLOSED

text \<open>
  What \<open>browser.storage.local\<close> holds under the three keys that the script reads. A key
  that is not stored reads as \<open>undefined\<close>, here \<open>None\<close>. Of the session only
  \<open>twitchSession?.user?.id\<close> is read.
\<close>

record TwitchUser =
  user_id :: string

record TwitchSession =
  user :: "TwitchUser option"

record StorageData =
  configuredRewardId :: "string option"
  sseEnabled :: "bool option"
  twitchSession :: "TwitchSession option"

text \<open>
  The world of the script. \<open>eventSource\<close> is the closure variable: \<open>None\<close> is \<open>null\<close>,
  \<open>Some r\<close> is an \<open>EventSource\<close> object whose \<open>readyState\<close> is \<open>r\<close>. An object that the
  script has closed and dropped dispatches no further event, so it is not kept.
  \<open>pendingTimers\<close> counts the \<open>setTimeout(connectSSE, RECONNECT_DELAY)\<close> calls that have
  not fired yet (the script keeps no timer id and never calls \<open>clearTimeout\<close>).
  \<open>constructed\<close> counts the \<open>new EventSource(...)\<close> calls that returned an object.
  \<open>ctor_throws\<close> says whether \<open>new EventSource\<close> throws in this build (an unparseable
  URL, or no \<open>EventSource\<close> in the host); it never changes.
\<close>

record world =
  local_storage :: StorageData
  ctor_throws :: bool
  eventSource :: "ReadyState option"
  reconnectAttempts :: nat
  pendingTimers :: nat
  constructed :: nat

definition MAX_RECONNECT_ATTEMPTS :: nat where
  "MAX_RECONNECT_ATTEMPTS = 10"

definition RECONNECT_DELAY :: nat where
  "RECONNECT_DELAY = 5000"

text \<open>The world when the background script starts, before its first call of \<open>connectSSE\<close>.\<close>

definition init :: "StorageData \<Rightarrow> bool \<Rightarrow> world" where
  "init st throws =
     \<lparr>local_storage = st, ctor_throws = throws, eventSource = None,
      reconnectAttempts = 0, pendingTimers = 0, constructed = 0\<rparr>"

subsection \<open>JavaScript truthiness of the stored values\<close>

text \<open>\<open>!x\<close> for a stored boolean: \<open>undefined\<close> and \<open>false\<close> are falsy.\<close>

definition truthy_bool :: "bool option \<Rightarrow> bool" where
  "truthy_bool b = (case b of None \<Rightarrow> False | Some v \<Rightarrow> v)"

text \<open>\<open>!x\<close> for a stored string: \<open>undefined\<close> and the empty string are falsy.\<close>

definition truthy_string :: "string option \<Rightarrow> bool" where
  "truthy_string s = (case s of None \<Rightarrow> False | Some v \<Rightarrow> v \<noteq> [])"

text \<open>\<open>storage.twitchSession?.user?.id\<close>.\<close>

definition session_user_id :: "TwitchSession option \<Rightarrow> string option" where
  "session_user_id s =
     (case s of None \<Rightarrow> None
      | Some sess \<Rightarrow> (case user sess of None \<Rightarrow> None | Some u \<Rightarrow> Some (user_id u)))"

subsection \<open>connectSSE and the transport handlers\<close>

text \<open>
  \<open>connectSSE\<close>: three early returns, then the existing connection is closed and dropped,
  then \<open>new EventSource\<close> inside \<open>try\<close>; when the constructor throws, the \<open>catch\<close> logs
  and the variable stays \<open>null\<close>.
\<close>

definition connectSSE :: "world \<Rightarrow> world" where
  "connectSSE w =
     (let storage = local_storage w in
      if \<not> truthy_bool (sseEnabled storage) then w
      else if \<not> truthy_string (configuredRewardId storage) then w
      else if \<not> truthy_string (session_user_id (twitchSession storage)) then w
      else
        let w1 = (if eventSource w \<noteq> None then w\<lparr>eventSource := None\<rparr> else w) in
        if ctor_throws w1 then w1
        else w1\<lparr>eventSource := Some CONNECTING, constructed := Suc (constructed w1)\<rparr>)"

text \<open>\<open>eventSource.onopen\<close>.\<close>

definition onopen :: "world \<Rightarrow> world" where
  "onopen w = w\<lparr>reconnectAttempts := 0\<rparr>"

text \<open>
  \<open>eventSource.onerror\<close>, with the bound of the comparison as a parameter; the script's
  handler is the instance at \<open>MAX_RECONNECT_ATTEMPTS\<close>.
\<close>

definition onerror_at :: "nat \<Rightarrow> world \<Rightarrow> world" where
  "onerror_at mx w =
     (let w1 = w\<lparr>eventSource := None\<rparr> in
      if reconnectAttempts w1 < mx
      then w1\<lparr>reconnectAttempts := Suc (reconnectAttempts w1),
              pendingTimers := Suc (pendingTimers w1)\<rparr>
      else w1)"

definition onerror :: "world \<Rightarrow> world" where
  "onerror = onerror_at MAX_RECONNECT_ATTEMPTS"

text \<open>A timer set by \<open>onerror\<close> fires: \<open>connectSSE\<close> is called.\<close>

definition timer_fires :: "world \<Rightarrow> world" where
  "timer_fires w =
     (if pendingTimers w = 0 then w
      else connectSSE (w\<lparr>pendingTimers := pendingTimers w - 1\<rparr>))"

subsection \<open>The pause listener and sendPauseToAMQ\<close>

text \<open>
  The value that \<open>JSON.parse(event.data)\<close> returns. A number is kept as its literal; the
  script never computes with it.
\<close>

datatype json =
  JNull | JBool bool | JNum string | JStr string | JArr "json list"
  | JObj "(string \<times> json) list"

text \<open>The result of \<open>JSON.parse(event.data)\<close>: a value, or a thrown \<open>SyntaxError\<close>.\<close>

datatype parse_result = ParseThrows | Parsed json

datatype js_error = SyntaxError | TypeError

text \<open>How a listener ends: it returns, or an error leaves it uncaught.\<close>

datatype outcome = Completed | Uncaught js_error

text \<open>
  \<open>data.rewardId\<close>: a \<open>TypeError\<close> on \<open>null\<close>, the member of an object (of a repeated
  member \<open>JSON.parse\<close> keeps the last), \<open>undefined\<close> on every other value.
\<close>

fun get_rewardId :: "json \<Rightarrow> js_error + json option" where
  "get_rewardId JNull = Inl TypeError"
| "get_rewardId (JObj kvs) = Inr (map_of (rev kvs) ''rewardId'')"
| "get_rewardId _ = Inr None"

text \<open>
  \<open>currentStorage.configuredRewardId === data.rewardId\<close>, the left side a stored string or
  \<open>undefined\<close>, the right side a parsed value or \<open>undefined\<close>.
\<close>

fun strict_eq :: "string option \<Rightarrow> json option \<Rightarrow> bool" where
  "strict_eq None None = True"
| "strict_eq (Some s) (Some (JStr t)) = (s = t)"
| "strict_eq _ _ = False"

text \<open>A tab as \<open>browser.tabs.query\<close> returns it; \<open>tab.id\<close> is optional.\<close>

record Tab =
  tab_id :: "int option"

text \<open>
  \<open>browser.tabs.sendMessage\<close> for one tab: the promise resolves with the reply of the
  content script (its \<open>success\<close> flag), or rejects.
\<close>

datatype send_result = Resolved bool | Rejected

text \<open>
  The browser as \<open>sendPauseToAMQ\<close> sees it: the result of \<open>browser.tabs.query\<close>
  (\<open>None\<close> when the promise rejects) and the result of \<open>sendMessage\<close> for a tab id and a
  payload.
\<close>

record env =
  tabs_query :: "Tab list option"
  tabs_sendMessage :: "int \<Rightarrow> json \<Rightarrow> send_result"

text \<open>
  The console lines that tell what was done with a pause event: the two lines of the
  listener that report the comparison of the identifiers, and the lines of
  \<open>sendPauseToAMQ\<close>. \<open>PauseSent i r\<close> and \<open>FailedToSend i\<close> are written after the call
  \<open>sendMessage(i, ...)\<close> has resolved with reply \<open>r\<close>, or has rejected.
\<close>

datatype log_entry =
  RewardIdMismatch | RewardIdMatches
  | NoTabsFound | PauseSent int bool | FailedToSend int | ErrorSendingPause

text \<open>The \<open>for (const tab of tabs)\<close> loop; \<open>if (tab.id)\<close> skips a missing id and the id 0.\<close>

fun send_to_tabs :: "(int \<Rightarrow> json \<Rightarrow> send_result) \<Rightarrow> json \<Rightarrow> Tab list \<Rightarrow> log_entry list" where
  "send_to_tabs send data [] = []"
| "send_to_tabs send data (t # ts) =
     (case tab_id t of
        None \<Rightarrow> send_to_tabs send data ts
      | Some i \<Rightarrow>
          if i = 0 then send_to_tabs send data ts
          else (case send i data of
                  Resolved r \<Rightarrow> PauseSent i r
                | Rejected \<Rightarrow> FailedToSend i) # send_to_tabs send data ts)"

definition sendPauseToAMQ :: "env \<Rightarrow> json \<Rightarrow> log_entry list" where
  "sendPauseToAMQ e data =
     (case tabs_query e of
        None \<Rightarrow> [ErrorSendingPause]
      | Some tabs \<Rightarrow>
          if tabs = [] then [NoTabsFound]
          else send_to_tabs (tabs_sendMessage e) data tabs)"

text \<open>
  The listener for \<open>pause\<close> events. It assigns no variable of the script, so the world it
  returns is the world it was given.
\<close>

definition pause_listener :: "env \<Rightarrow> parse_result \<Rightarrow> world \<Rightarrow> outcome \<times> log_entry list \<times> world" where
  "pause_listener e ev w =
     (case ev of
        ParseThrows \<Rightarrow> (Uncaught SyntaxError, [], w)
      | Parsed data \<Rightarrow>
          (case get_rewardId data of
             Inl err \<Rightarrow> (Uncaught err, [], w)
           | Inr rid \<Rightarrow>
               if \<not> strict_eq (configuredRewardId (local_storage w)) rid
               then (Completed, [RewardIdMismatch], w)
               else (Completed, RewardIdMatches # sendPauseToAMQ e data, w)))"

text \<open>The listener for \<open>connected\<close> events: it parses and logs.\<close>

definition connected_listener :: "parse_result \<Rightarrow> world \<Rightarrow> outcome \<times> world" where
  "connected_listener ev w =
     (case ev of ParseThrows \<Rightarrow> (Uncaught SyntaxError, w) | Parsed data \<Rightarrow> (Completed, w))"

subsection \<open>Messages and storage changes\<close>

datatype message = CONNECT_SSE | DISCONNECT_SSE | GET_SSE_STATUS | OTHER_MESSAGE

text \<open>\<open>{success: true}\<close> and \<open>{connected, reconnectAttempts}\<close>.\<close>

datatype response = Success | Status bool nat

fun onMessage :: "message \<Rightarrow> world \<Rightarrow> response option \<times> world" where
  "onMessage CONNECT_SSE w = (Some Success, connectSSE w)"
| "onMessage DISCONNECT_SSE w =
     (Some Success, if eventSource w \<noteq> None then w\<lparr>eventSource := None\<rparr> else w)"
| "onMessage GET_SSE_STATUS w =
     (Some (Status (eventSource w = Some OPEN) (reconnectAttempts w)), w)"
| "onMessage OTHER_MESSAGE w = (None, w)"

datatype areaName = AreaLocal | AreaSync | AreaManaged | AreaSession

text \<open>
  The \<open>storage.onChanged\<close> listener; \<open>changes\<close> is the list of the keys of the change
  object.
\<close>

definition storage_onChanged :: "string list \<Rightarrow> areaName \<Rightarrow> world \<Rightarrow> world" where
  "storage_onChanged changes area w =
     (if area = AreaLocal then
        (if ''sseEnabled'' \<in> set changes \<or> ''configuredRewardId'' \<in> set changes
         then connectSSE w else w)
      else w)"

subsection \<open>Runs\<close>

text \<open>
  What can happen to the script. A write to a storage area comes with the keys it reports
  as changed and, for the local area, the contents after the write. The transport's events
  are dispatched only for the object that the variable holds: \<open>open\<close> while it is
  connecting, \<open>pause\<close> and \<open>connected\<close> while it is open, \<open>error\<close> in either case, after
  the browser has set \<open>readyState\<close> to \<open>CLOSED\<close> (the flag) or back to \<open>CONNECTING\<close>.
\<close>

datatype event =
  Startup
  | Message message
  | StorageChanged areaName "string list" StorageData
  | TimerFires
  | ESOpen
  | ESError bool
  | ESPause env parse_result
  | ESConnected parse_result

fun step_at :: "nat \<Rightarrow> event \<Rightarrow> world \<Rightarrow> world" where
  "step_at mx Startup w = connectSSE w"
| "step_at mx (Message m) w = snd (onMessage m w)"
| "step_at mx (StorageChanged area changes st) w =
     storage_onChanged changes area
       (if area = AreaLocal then w\<lparr>local_storage := st\<rparr> else w)"
| "step_at mx TimerFires w = timer_fires w"
| "step_at mx ESOpen w =
     (if eventSource w = Some CONNECTING then onopen (w\<lparr>eventSource := Some OPEN\<rparr>) else w)"
| "step_at mx (ESError closed) w =
     (if eventSource w = None then w
      else onerror_at mx (w\<lparr>eventSource := Some (if closed then CLOSED else CONNECTING)\<rparr>))"
| "step_at mx (ESPause e ev) w =
     (if eventSource w = Some OPEN then snd (snd (pause_listener e ev w)) else w)"
| "step_at mx (ESConnected ev) w =
     (if eventSource w = Some OPEN then snd (connected_listener ev w) else w)"

fun run_at :: "nat \<Rightarrow> event list \<Rightarrow> world \<Rightarrow> world" where
  "run_at mx [] w = w"
| "run_at mx (ev # evs) w = run_at mx evs (step_at mx ev w)"

definition step :: "event \<Rightarrow> world \<Rightarrow> world" where
  "step = step_at MAX_RECONNECT_ATTEMPTS"

definition run :: "event list \<Rightarrow> world \<Rightarrow> world" where
  "run = run_at MAX_RECONNECT_ATTEMPTS"

subsection \<open>The gating precondition and the connection states\<close>

text \<open>The conjunction of the three checks that \<open>connectSSE\<close> makes before it connects.\<close>

definition gate :: "StorageData \<Rightarrow> bool" where
  "gate st \<longleftrightarrow>
     truthy_bool (sseEnabled st) \<and> truthy_string (configuredRewardId st)
     \<and> truthy_string (session_user_id (twitchSession st))"

text \<open>
  The five connection states, read off the variables of the script: a held object is
  connecting or open by its \<open>readyState\<close>; with no object, a pending timer means a
  reconnect is scheduled; with neither, the script has given up when the counter has
  reached the bound, and is idle otherwise.
\<close>

datatype ConnectionState = Idle | Connecting | Open | Reconnecting | Failed

definition connectionState_at :: "nat \<Rightarrow> world \<Rightarrow> ConnectionState" where
  "connectionState_at mx w =
     (case eventSource w of
        Some OPEN \<Rightarrow> Open
      | Some CONNECTING \<Rightarrow> Connecting
      | Some CLOSED \<Rightarrow> Idle
      | None \<Rightarrow>
          if 0 < pendingTimers w then Reconnecting
          else if mx \<le> reconnectAttempts w then Failed
          else Idle)"

definition connectionState :: "world \<Rightarrow> ConnectionState" where
  "connectionState = connectionState_at MAX_RECONNECT_ATTEMPTS"

subsection \<open>Consecutive failures\<close>

text \<open>
  A run of consecutive transport failures with no \<open>open\<close> signal in between: the
  transport fails, and every later failure is that of the connection made when the timer
  set by the failure before it has fired. The flags say, failure by failure, whether the
  browser had closed the transport.
\<close>

fun reconnects :: "bool list \<Rightarrow> event list" where
  "reconnects [] = []"
| "reconnects (b # bs) = TimerFires # ESError b # reconnects bs"

fun failures :: "bool list \<Rightarrow> event list" where
  "failures [] = []"
| "failures (b # bs) = ESError b # reconnects bs"

subsection \<open>Delivery targets and attempts\<close>

text \<open>The delivery targets among the tabs of a query: the truthy tab ids, in order.\<close>

definition targets :: "Tab list \<Rightarrow> int list" where
  "targets tabs =
     filter (\<lambda>i. i \<noteq> 0) (concat (map (\<lambda>t. case tab_id t of None \<Rightarrow> [] | Some i \<Rightarrow> [i]) tabs))"

text \<open>The console line that reports the result of \<open>sendMessage\<close> for one tab id.\<close>

definition attempt_line :: "(int \<Rightarrow> json \<Rightarrow> send_result) \<Rightarrow> json \<Rightarrow> int \<Rightarrow> log_entry" where
  "attempt_line send data i =
     (case send i data of Resolved r \<Rightarrow> PauseSent i r | Rejected \<Rightarrow> FailedToSend i)"

text \<open>The tab ids of the \<open>sendMessage\<close> calls that a log reports, in order.\<close>

fun attempts :: "log_entry list \<Rightarrow> int list" where
  "attempts [] = []"
| "attempts (PauseSent i r # l) = i # attempts l"
| "attempts (FailedToSend i # l) = i # attempts l"
| "attempts (x # l) = attempts l"

subsection \<open>Example values\<close>

text \<open>A configuration that passes all three checks of \<open>connectSSE\<close>.\<close>

definition example_storage :: StorageData where
  "example_storage =
     \<lparr>configuredRewardId = Some ''RWD-1'', sseEnabled = Some True,
      twitchSession = Some \<lparr>user = Some \<lparr>user_id = ''42''\<rparr>\<rparr>\<rparr>"

text \<open>Three tabs; the content script of the second does not answer.\<close>

definition example_env :: env where
  "example_env =
     \<lparr>tabs_query = Some [\<lparr>tab_id = Some 7\<rparr>, \<lparr>tab_id = Some 8\<rparr>, \<lparr>tab_id = Some 9\<rparr>],
      tabs_sendMessage = (\<lambda>i d. if i = 8 then Rejected else Resolved True)\<rparr>"

text \<open>The script after its start with the example configuration: a connection is being made.\<close>

definition started :: world where
  "started = step Startup (init example_storage False)"

subsection \<open>What a pause event led to\<close>

text \<open>
  Read off the result of the pause listener: whether it reported that the identifiers
  match, and the tab ids of the \<open>sendMessage\<close> calls made for the event.
\<close>

definition matched :: "outcome \<times> log_entry list \<times> world \<Rightarrow> bool" where
  "matched r \<longleftrightarrow> RewardIdMatches \<in> set (fst (snd r))"

definition delivery_attempts :: "outcome \<times> log_entry list \<times> world \<Rightarrow> int list" where
  "delivery_attempts r = attempts (fst (snd r))"

subsection \<open>The variant of connectSSE without the session check\<close>

text \<open>
  The repository also holds a variant of the background script in which \<open>connectSSE\<close>
  reads only \<open>configuredRewardId\<close> and \<open>sseEnabled\<close> and makes the first two checks only;
  inside \<open>try\<close> it awaits \<open>browser.cookies.getAll\<close> before \<open>new EventSource\<close>, so
  \<open>ctor_throws\<close> stands for either of them failing. Its handlers and listeners are those
  of the script above.
\<close>

definition connectSSE_without_session :: "world \<Rightarrow> world" where
  "connectSSE_without_session w =
     (let storage = local_storage w in
      if \<not> truthy_bool (sseEnabled storage) then w
      else if \<not> truthy_string (configuredRewardId storage) then w
      else
        let w1 = (if eventSource w \<noteq> None then w\<lparr>eventSource := None\<rparr> else w) in
        if ctor_throws w1 then w1
        else w1\<lparr>eventSource := Some CONNECTING, constructed := Suc (constructed w1)\<rparr>)"

section \<open>Properties\<close>

subsection \<open>Helper facts\<close>

lemma connectSSE_refused: "\<not> gate (local_storage w) \<Longrightarrow> connectSSE w = w"
  by (auto simp: connectSSE_def gate_def Let_def)

lemma connectSSE_passes:
  "gate (local_storage w) \<Longrightarrow>
   connectSSE w =
     (if ctor_throws w then w\<lparr>eventSource := None\<rparr>
      else w\<lparr>eventSource := Some CONNECTING, constructed := Suc (constructed w)\<rparr>)"
  by (auto simp: connectSSE_def gate_def Let_def)

lemma connectSSE_frame:
  "reconnectAttempts (connectSSE w) = reconnectAttempts w"
  "pendingTimers (connectSSE w) = pendingTimers w"
  "local_storage (connectSSE w) = local_storage w"
  "ctor_throws (connectSSE w) = ctor_throws w"
  by (simp_all add: connectSSE_def Let_def)

lemma onerror_at_eq:
  "onerror_at mx w =
     (if reconnectAttempts w < mx
      then w\<lparr>eventSource := None, reconnectAttempts := Suc (reconnectAttempts w),
             pendingTimers := Suc (pendingTimers w)\<rparr>
      else w\<lparr>eventSource := None\<rparr>)"
  by (simp add: onerror_at_def Let_def)

lemma gate_example_storage: "gate example_storage"
  by (simp add: gate_def example_storage_def truthy_bool_def truthy_string_def session_user_id_def)

lemma started_eq:
  "started = \<lparr>local_storage = example_storage, ctor_throws = False,
     eventSource = Some CONNECTING, reconnectAttempts = 0, pendingTimers = 0, constructed = 1\<rparr>"
  by (simp add: started_def step_def init_def connectSSE_passes gate_example_storage)


text \<open>
  The variant without the session check refuses on the two checks it has; an absent
  session does not stop it.
\<close>

lemma connectSSE_without_session_refused:
  "\<not> truthy_bool (sseEnabled (local_storage w))
   \<or> \<not> truthy_string (configuredRewardId (local_storage w)) \<Longrightarrow>
   connectSSE_without_session w = w"
  by (auto simp: connectSSE_without_session_def Let_def)

lemma connectSSE_without_session_connects:
  "constructed (connectSSE_without_session (init (example_storage\<lparr>twitchSession := None\<rparr>) False))
     = 1"
  by (simp add: connectSSE_without_session_def init_def example_storage_def truthy_bool_def
      truthy_string_def)

subsection \<open>Start is refused while the gate is closed\<close>

text \<open>
  C1. For every configuration in which \<open>sseEnabled\<close> is false or not stored, or the stored
  session has no user id, or \<open>configuredRewardId\<close> is empty or not stored, Start (the
  \<open>CONNECT_SSE\<close> command, or the call of \<open>connectSSE\<close> at startup) creates no connection:
  the script answers the command and is left exactly as it was, no \<open>EventSource\<close> is
  constructed, and a connector that was idle is idle afterwards.
\<close>

theorem start_refused_without_gate:
  assumes "\<not> truthy_bool (sseEnabled (local_storage w))
           \<or> \<not> truthy_string (session_user_id (twitchSession (local_storage w)))
           \<or> \<not> truthy_string (configuredRewardId (local_storage w))"
  shows "onMessage CONNECT_SSE w = (Some Success, w) \<and> step Startup w = w
         \<and> constructed (connectSSE w) = constructed w
         \<and> eventSource (connectSSE w) = eventSource w
         \<and> (connectionState w = Idle \<longrightarrow> connectionState (connectSSE w) = Idle)"
proof -
  from assms have "\<not> gate (local_storage w)"
    by (auto simp: gate_def)
  then have "connectSSE w = w"
    by (rule connectSSE_refused)
  then show ?thesis
    by (simp add: step_def)
qed

text \<open>
  At startup with the example configuration without a stored session, the connector is
  idle before and after Start and has constructed nothing.
\<close>

theorem start_refused_without_gate_witness:
  "connectionState (init (example_storage\<lparr>twitchSession := None\<rparr>) False) = Idle
   \<and> onMessage CONNECT_SSE (init (example_storage\<lparr>twitchSession := None\<rparr>) False)
       = (Some Success, init (example_storage\<lparr>twitchSession := None\<rparr>) False)
   \<and> connectionState (connectSSE (init (example_storage\<lparr>twitchSession := None\<rparr>) False)) = Idle
   \<and> constructed (connectSSE (init (example_storage\<lparr>twitchSession := None\<rparr>) False)) = 0"
proof -
  let ?w = "init (example_storage\<lparr>twitchSession := None\<rparr>) False"
  have h: "\<not> truthy_bool (sseEnabled (local_storage ?w))
           \<or> \<not> truthy_string (session_user_id (twitchSession (local_storage ?w)))
           \<or> \<not> truthy_string (configuredRewardId (local_storage ?w))"
    by (simp add: init_def example_storage_def session_user_id_def truthy_string_def)
  have i: "connectionState ?w = Idle"
    by (simp add: connectionState_def connectionState_at_def init_def MAX_RECONNECT_ATTEMPTS_def)
  have c: "constructed ?w = 0"
    by (simp add: init_def)
  from start_refused_without_gate [OF h] i c show ?thesis
    by simp
qed

subsection \<open>Giving up after the last reconnect has failed\<close>






subsection \<open>Disabling the configuration\<close>

text \<open>
  C3, as the script behaves. When a change of the local storage area leaves \<open>sseEnabled\<close>
  false (or not stored), the \<open>onChanged\<close> listener calls \<open>connectSSE\<close>, which returns at
  its first check: the connector makes no transition. A live transport is kept, a pending
  reconnect stays pending and the counter is not reset. A timer that fires afterwards is
  refused at the same check and makes no connection; the transport is dropped when
  \<open>DISCONNECT_SSE\<close> arrives.
\<close>

theorem disable_leaves_connector:
  assumes "\<not> truthy_bool (sseEnabled st)"
  shows "step (StorageChanged AreaLocal changes st) w = w\<lparr>local_storage := st\<rparr>
         \<and> step TimerFires (w\<lparr>local_storage := st\<rparr>)
             = w\<lparr>local_storage := st, pendingTimers := pendingTimers w - 1\<rparr>
         \<and> snd (onMessage DISCONNECT_SSE (w\<lparr>local_storage := st\<rparr>))
             = w\<lparr>local_storage := st, eventSource := None\<rparr>"
  using assms
  by (simp add: step_def storage_onChanged_def timer_fires_def connectSSE_def)

text \<open>An open connection stays open when the example configuration is disabled.\<close>

theorem disable_leaves_connector_witness:
  "step (StorageChanged AreaLocal [''sseEnabled''] (example_storage\<lparr>sseEnabled := Some False\<rparr>))
     (step ESOpen started)
   = (step ESOpen started)\<lparr>local_storage := example_storage\<lparr>sseEnabled := Some False\<rparr>\<rparr>
   \<and> eventSource (step ESOpen started) = Some OPEN"
proof -
  have h: "\<not> truthy_bool (sseEnabled (example_storage\<lparr>sseEnabled := Some False\<rparr>))"
    by (simp add: truthy_bool_def)
  have o: "eventSource (step ESOpen started) = Some OPEN"
    by (simp add: step_def started_eq onopen_def)
  from disable_leaves_connector [OF h, of "[''sseEnabled'']" "step ESOpen started"] o
  show ?thesis
    by simp
qed

text \<open>
  C3 as stated fails: after the storage change that disables the example configuration,
  an open connector is still open, and a reconnecting one is still reconnecting with its
  counter at 1.
\<close>

theorem disable_tears_down_counterexample:
  "connectionState
     (run [ESOpen, StorageChanged AreaLocal [''sseEnabled''] (example_storage\<lparr>sseEnabled := Some False\<rparr>)]
        started) = Open
   \<and> connectionState
       (run [ESError False,
             StorageChanged AreaLocal [''sseEnabled''] (example_storage\<lparr>sseEnabled := Some False\<rparr>)]
          started) = Reconnecting
   \<and> reconnectAttempts
       (run [ESError False,
             StorageChanged AreaLocal [''sseEnabled''] (example_storage\<lparr>sseEnabled := Some False\<rparr>)]
          started) = 1"
  by (simp add: run_def started_eq onopen_def onerror_at_eq storage_onChanged_def
      connectSSE_def truthy_bool_def connectionState_def connectionState_at_def
      MAX_RECONNECT_ATTEMPTS_def)

subsection \<open>Stop while a reconnect is scheduled\<close>

text \<open>
  C4, as the script behaves. \<open>DISCONNECT_SSE\<close> drops the transport if there is one,
  answers \<open>{success: true}\<close> and changes nothing else: with no transport (a reconnect
  being scheduled) the script is left exactly as it was, so the timer stays pending and
  \<open>reconnectAttempts\<close> keeps its value. When the timer then fires, \<open>connectSSE\<close> makes a
  new connection if the configuration passes the gate, and none if it does not.
\<close>

theorem stop_keeps_timer_and_attempts:
  "snd (onMessage DISCONNECT_SSE w) = w\<lparr>eventSource := None\<rparr>
   \<and> fst (onMessage DISCONNECT_SSE w) = Some Success
   \<and> (eventSource w = None \<longrightarrow> snd (onMessage DISCONNECT_SSE w) = w)
   \<and> (0 < pendingTimers w \<and> gate (local_storage w) \<and> \<not> ctor_throws w \<longrightarrow>
        step TimerFires (snd (onMessage DISCONNECT_SSE w))
          = w\<lparr>eventSource := Some CONNECTING, pendingTimers := pendingTimers w - 1,
              constructed := Suc (constructed w)\<rparr>)
   \<and> (\<not> gate (local_storage w) \<longrightarrow>
        step TimerFires (snd (onMessage DISCONNECT_SSE w))
          = w\<lparr>eventSource := None, pendingTimers := pendingTimers w - 1\<rparr>)"
  by (simp add: step_def timer_fires_def connectSSE_passes connectSSE_refused)

text \<open>
  After one failure of the example connection, Stop changes nothing and the timer
  reconnects.
\<close>

theorem stop_keeps_timer_and_attempts_witness:
  "pendingTimers (step (ESError False) started) = 1
   \<and> reconnectAttempts (step (ESError False) started) = 1
   \<and> snd (onMessage DISCONNECT_SSE (step (ESError False) started)) = step (ESError False) started
   \<and> step TimerFires (snd (onMessage DISCONNECT_SSE (step (ESError False) started)))
       = started\<lparr>reconnectAttempts := 1, constructed := 2\<rparr>"
proof -
  have w: "step (ESError False) started
           = started\<lparr>eventSource := None, reconnectAttempts := 1, pendingTimers := 1\<rparr>"
    by (simp add: step_def started_eq onerror_at_eq MAX_RECONNECT_ATTEMPTS_def)
  have g: "gate (local_storage (step (ESError False) started))"
    unfolding w by (simp add: started_eq gate_example_storage)
  from stop_keeps_timer_and_attempts [of "step (ESError False) started"] g show ?thesis
    unfolding w by (simp add: started_eq)
qed

text \<open>
  C4 as stated fails: Stop during a scheduled reconnect leaves the timer pending and the
  counter at 1, and the timer then makes a second connection.
\<close>

theorem stop_cancels_reconnect_counterexample:
  "connectionState (run [ESError False] started) = Reconnecting
   \<and> pendingTimers (run [ESError False, Message DISCONNECT_SSE] started) = 1
   \<and> reconnectAttempts (run [ESError False, Message DISCONNECT_SSE] started) = 1
   \<and> eventSource (run [ESError False, Message DISCONNECT_SSE, TimerFires] started)
       = Some CONNECTING
   \<and> constructed (run [ESError False, Message DISCONNECT_SSE] started) = 1
   \<and> constructed (run [ESError False, Message DISCONNECT_SSE, TimerFires] started) = 2"
  by (simp add: run_def started_eq onerror_at_eq timer_fires_def connectSSE_passes
      gate_example_storage connectionState_def connectionState_at_def MAX_RECONNECT_ATTEMPTS_def)

subsection \<open>A change of the reward id\<close>

text \<open>
  C5, as the script behaves. A change of the local storage area that reports
  \<open>configuredRewardId\<close> and leaves \<open>sseEnabled\<close> and the session as they were makes the
  \<open>onChanged\<close> listener call \<open>connectSSE\<close>. When the new configuration passes the gate,
  the transport held so far is closed and a new one is constructed, which is connecting;
  when it does not (the new reward id is empty), the connector is left as it was and a
  transport that was open stays. In both cases the counter and the pending timers are
  unchanged.
\<close>

theorem filter_change_reconnects:
  assumes "sseEnabled st = sseEnabled (local_storage w)"
    and "twitchSession st = twitchSession (local_storage w)"
    and "''configuredRewardId'' \<in> set changes"
  shows "(gate st \<and> \<not> ctor_throws w \<longrightarrow>
            step (StorageChanged AreaLocal changes st) w
              = w\<lparr>local_storage := st, eventSource := Some CONNECTING,
                  constructed := Suc (constructed w)\<rparr>)
         \<and> (\<not> gate st \<longrightarrow> step (StorageChanged AreaLocal changes st) w = w\<lparr>local_storage := st\<rparr>)
         \<and> reconnectAttempts (step (StorageChanged AreaLocal changes st) w) = reconnectAttempts w
         \<and> pendingTimers (step (StorageChanged AreaLocal changes st) w) = pendingTimers w"
  using assms
  by (simp add: step_def storage_onChanged_def connectSSE_passes connectSSE_refused
      connectSSE_frame)

text \<open>
  From an open connection with the example configuration: the reward id \<open>RWD-2\<close>
  replaces the transport, the empty reward id keeps it.
\<close>

theorem filter_change_reconnects_witness:
  "step (StorageChanged AreaLocal [''configuredRewardId'']
           (example_storage\<lparr>configuredRewardId := Some ''RWD-2''\<rparr>)) (step ESOpen started)
     = (step ESOpen started)
         \<lparr>local_storage := example_storage\<lparr>configuredRewardId := Some ''RWD-2''\<rparr>,
          eventSource := Some CONNECTING, constructed := 2\<rparr>
   \<and> step (StorageChanged AreaLocal [''configuredRewardId'']
           (example_storage\<lparr>configuredRewardId := Some ''''\<rparr>)) (step ESOpen started)
     = (step ESOpen started)\<lparr>local_storage := example_storage\<lparr>configuredRewardId := Some ''''\<rparr>\<rparr>
   \<and> eventSource (step ESOpen started) = Some OPEN"
proof -
  let ?w = "step ESOpen started"
  let ?s2 = "example_storage\<lparr>configuredRewardId := Some ''RWD-2''\<rparr>"
  let ?s0 = "example_storage\<lparr>configuredRewardId := Some ''''\<rparr>"
  have w: "?w = started\<lparr>eventSource := Some OPEN\<rparr>"
    by (simp add: step_def started_eq onopen_def)
  have e2: "sseEnabled ?s2 = sseEnabled (local_storage ?w)"
    and t2: "twitchSession ?s2 = twitchSession (local_storage ?w)"
    and e0: "sseEnabled ?s0 = sseEnabled (local_storage ?w)"
    and t0: "twitchSession ?s0 = twitchSession (local_storage ?w)"
    unfolding w by (simp_all add: started_eq)
  have k: "''configuredRewardId'' \<in> set [''configuredRewardId'']"
    by simp
  have g2: "gate ?s2" and g0: "\<not> gate ?s0" and c: "\<not> ctor_throws ?w"
    unfolding w
    by (simp_all add: gate_def example_storage_def truthy_bool_def truthy_string_def
        session_user_id_def started_eq)
  from filter_change_reconnects [OF e2 t2 k] filter_change_reconnects [OF e0 t0 k] g2 g0 c
  show ?thesis
    unfolding w by (simp add: started_eq)
qed

text \<open>
  C5 as stated fails: an open connection whose reward id alone changes from \<open>RWD-1\<close> to
  \<open>RWD-2\<close> is replaced by a second, connecting one.
\<close>

theorem filter_change_keeps_transport_counterexample:
  "eventSource (step ESOpen started) = Some OPEN
   \<and> eventSource
       (run [ESOpen,
             StorageChanged AreaLocal [''configuredRewardId'']
               (example_storage\<lparr>configuredRewardId := Some ''RWD-2''\<rparr>)] started)
       = Some CONNECTING
   \<and> constructed (step ESOpen started) = 1
   \<and> constructed
       (run [ESOpen,
             StorageChanged AreaLocal [''configuredRewardId'']
               (example_storage\<lparr>configuredRewardId := Some ''RWD-2''\<rparr>)] started)
       = 2"
  by (simp add: run_def step_def started_eq onopen_def storage_onChanged_def connectSSE_def
      example_storage_def truthy_bool_def truthy_string_def session_user_id_def)

subsection \<open>Matching a pause event\<close>

text \<open>
  C6, as the script behaves. For every pause event whose payload parses to a value other
  than \<open>null\<close>, the listener compares with \<open>===\<close>: when a reward id is stored (empty or
  not), the event matches exactly when the payload has the identifier and it is a string
  equal to the stored one; when none is stored, it matches exactly when the payload has no
  identifier. A match calls \<open>sendPauseToAMQ\<close>; without one the listener returns after
  its log line and no delivery is attempted.
\<close>

theorem match_is_strict_equality:
  assumes "get_rewardId data = Inr rid"
  shows "(configuredRewardId (local_storage w) = Some f \<longrightarrow>
            (matched (pause_listener e (Parsed data) w) \<longleftrightarrow> rid = Some (JStr f)))
         \<and> (configuredRewardId (local_storage w) = None \<longrightarrow>
            (matched (pause_listener e (Parsed data) w) \<longleftrightarrow> rid = None))
         \<and> (matched (pause_listener e (Parsed data) w) \<longrightarrow>
              pause_listener e (Parsed data) w
                = (Completed, RewardIdMatches # sendPauseToAMQ e data, w))
         \<and> (\<not> matched (pause_listener e (Parsed data) w) \<longrightarrow>
              pause_listener e (Parsed data) w = (Completed, [RewardIdMismatch], w)
              \<and> delivery_attempts (pause_listener e (Parsed data) w) = [])"
proof -
  have s: "strict_eq (Some f) rid \<longleftrightarrow> rid = Some (JStr f)" for f
    by (cases "(Some f, rid)" rule: strict_eq.cases) auto
  have n: "strict_eq None rid \<longleftrightarrow> rid = None"
    by (cases rid) simp_all
  show ?thesis
    using assms s n
    by (cases "configuredRewardId (local_storage w)")
       (auto simp: matched_def delivery_attempts_def pause_listener_def)
qed

text \<open>
  With \<open>RWD-1\<close> stored: the event for \<open>RWD-1\<close> is sent to the three tabs, the event for
  \<open>RWD-2\<close> and the event without identifier to none.
\<close>

theorem match_is_strict_equality_witness:
  "matched (pause_listener example_env (Parsed (JObj [(''rewardId'', JStr ''RWD-1'')])) started)
   \<and> delivery_attempts
       (pause_listener example_env (Parsed (JObj [(''rewardId'', JStr ''RWD-1'')])) started)
       = [7, 8, 9]
   \<and> \<not> matched (pause_listener example_env (Parsed (JObj [(''rewardId'', JStr ''RWD-2'')])) started)
   \<and> delivery_attempts
       (pause_listener example_env (Parsed (JObj [(''rewardId'', JStr ''RWD-2'')])) started) = []
   \<and> \<not> matched (pause_listener example_env (Parsed (JObj [(''cost'', JNum ''100'')])) started)"
proof -
  have c: "configuredRewardId (local_storage started) = Some ''RWD-1''"
    by (simp add: started_eq example_storage_def)
  have g1: "get_rewardId (JObj [(''rewardId'', JStr ''RWD-1'')]) = Inr (Some (JStr ''RWD-1''))"
    and g2: "get_rewardId (JObj [(''rewardId'', JStr ''RWD-2'')]) = Inr (Some (JStr ''RWD-2''))"
    and g3: "get_rewardId (JObj [(''cost'', JNum ''100'')]) = Inr None"
    by simp_all
  have a: "attempts (sendPauseToAMQ example_env (JObj [(''rewardId'', JStr ''RWD-1'')])) = [7, 8, 9]"
    by (simp add: sendPauseToAMQ_def example_env_def)
  note m1 = match_is_strict_equality [OF g1, of started "''RWD-1''" example_env]
  note m2 = match_is_strict_equality [OF g2, of started "''RWD-1''" example_env]
  note m3 = match_is_strict_equality [OF g3, of started "''RWD-1''" example_env]
  from m1 c have y1: "matched (pause_listener example_env
      (Parsed (JObj [(''rewardId'', JStr ''RWD-1'')])) started)"
    by simp
  with m1 have "pause_listener example_env (Parsed (JObj [(''rewardId'', JStr ''RWD-1'')])) started
      = (Completed,
         RewardIdMatches # sendPauseToAMQ example_env (JObj [(''rewardId'', JStr ''RWD-1'')]),
         started)"
    by blast
  then have d1: "delivery_attempts
       (pause_listener example_env (Parsed (JObj [(''rewardId'', JStr ''RWD-1'')])) started)
       = [7, 8, 9]"
    by (simp add: delivery_attempts_def a)
  from m2 c have n2: "\<not> matched (pause_listener example_env
      (Parsed (JObj [(''rewardId'', JStr ''RWD-2'')])) started)"
    by simp
  with m2 have d2: "delivery_attempts
       (pause_listener example_env (Parsed (JObj [(''rewardId'', JStr ''RWD-2'')])) started) = []"
    by blast
  from m3 c have n3: "\<not> matched (pause_listener example_env
      (Parsed (JObj [(''cost'', JNum ''100'')])) started)"
    by simp
  from y1 d1 n2 d2 n3 show ?thesis
    by blast
qed

text \<open>
  C6 as stated fails. The reward id is emptied while the connection is open (the change is
  refused by the gate, the transport stays): an event whose identifier is the empty string
  matches and is sent to the three tabs. Likewise, with no reward id stored, an event
  without identifier matches.
\<close>

theorem empty_filter_never_matches_counterexample:
  "eventSource
     (run [ESOpen, StorageChanged AreaLocal [''configuredRewardId'']
                     (example_storage\<lparr>configuredRewardId := Some ''''\<rparr>)] started) = Some OPEN
   \<and> configuredRewardId (local_storage
       (run [ESOpen, StorageChanged AreaLocal [''configuredRewardId'']
                       (example_storage\<lparr>configuredRewardId := Some ''''\<rparr>)] started)) = Some ''''
   \<and> matched (pause_listener example_env (Parsed (JObj [(''rewardId'', JStr '''')]))
       (run [ESOpen, StorageChanged AreaLocal [''configuredRewardId'']
                       (example_storage\<lparr>configuredRewardId := Some ''''\<rparr>)] started))
   \<and> delivery_attempts (pause_listener example_env (Parsed (JObj [(''rewardId'', JStr '''')]))
       (run [ESOpen, StorageChanged AreaLocal [''configuredRewardId'']
                       (example_storage\<lparr>configuredRewardId := Some ''''\<rparr>)] started)) = [7, 8, 9]
   \<and> matched (pause_listener example_env (Parsed (JObj [(''cost'', JNum ''100'')]))
       (run [ESOpen, StorageChanged AreaLocal [''configuredRewardId'']
                       (example_storage\<lparr>configuredRewardId := None\<rparr>)] started))
   \<and> delivery_attempts (pause_listener example_env (Parsed (JObj [(''cost'', JNum ''100'')]))
       (run [ESOpen, StorageChanged AreaLocal [''configuredRewardId'']
                       (example_storage\<lparr>configuredRewardId := None\<rparr>)] started)) = [7, 8, 9]"
  by (simp add: run_def started_eq onopen_def storage_onChanged_def connectSSE_def
      truthy_string_def truthy_bool_def example_storage_def matched_def delivery_attempts_def
      pause_listener_def sendPauseToAMQ_def example_env_def)

subsection \<open>Delivery to the tabs\<close>

lemma send_to_tabs_eq:
  "send_to_tabs send data tabs = map (attempt_line send data) (targets tabs)"
  by (induction tabs) (simp_all add: targets_def attempt_line_def split: option.splits)

lemma attempts_attempt_lines: "attempts (map (attempt_line send data) ids) = ids"
  by (induction ids) (simp_all add: attempt_line_def split: send_result.splits)

lemma targets_Nil: "targets [] = []"
  by (simp add: targets_def)

text \<open>
  C7. When the tab query answers, \<open>sendPauseToAMQ\<close> calls \<open>sendMessage\<close> once for every
  delivery target, in order, whatever the results of the other calls are: a call that
  rejects stops nothing and is not repeated. The log holds for every target the line of
  its own result, success or failure. The listener that delivered a matched event
  completes, and the event leaves the connection, the counter and the timers as they were.
\<close>

theorem delivery_isolates_failures:
  assumes "tabs_query e = Some tabs"
  shows "attempts (sendPauseToAMQ e data) = targets tabs
         \<and> (\<forall>j \<in> set (targets tabs).
               attempt_line (tabs_sendMessage e) data j \<in> set (sendPauseToAMQ e data))
         \<and> (tabs \<noteq> [] \<longrightarrow>
               sendPauseToAMQ e data = map (attempt_line (tabs_sendMessage e) data) (targets tabs))
         \<and> (matched (pause_listener e (Parsed data) w) \<longrightarrow>
               pause_listener e (Parsed data) w
                 = (Completed, RewardIdMatches # sendPauseToAMQ e data, w))
         \<and> step (ESPause e (Parsed data)) w = w"
proof -
  have a: "attempts (sendPauseToAMQ e data) = targets tabs"
    using assms
    by (simp add: sendPauseToAMQ_def send_to_tabs_eq attempts_attempt_lines targets_Nil)
  have b: "tabs \<noteq> [] \<longrightarrow>
        sendPauseToAMQ e data = map (attempt_line (tabs_sendMessage e) data) (targets tabs)"
    using assms by (simp add: sendPauseToAMQ_def send_to_tabs_eq)
  have c: "\<forall>j \<in> set (targets tabs).
               attempt_line (tabs_sendMessage e) data j \<in> set (sendPauseToAMQ e data)"
  proof (cases "tabs = []")
    case True
    then show ?thesis by (simp add: targets_Nil)
  next
    case False
    with b show ?thesis by simp
  qed
  have d: "matched (pause_listener e (Parsed data) w) \<longrightarrow>
               pause_listener e (Parsed data) w
                 = (Completed, RewardIdMatches # sendPauseToAMQ e data, w)"
    by (auto simp: matched_def pause_listener_def split: sum.splits)
  have s: "step (ESPause e (Parsed data)) w = w"
    by (simp add: step_def pause_listener_def split: sum.splits)
  from a b c d s show ?thesis
    by blast
qed

text \<open>
  Three tabs, the second rejecting: all three are tried, and each result is logged.
\<close>

theorem delivery_isolates_failures_witness:
  "tabs_sendMessage example_env 8 (JObj [(''rewardId'', JStr ''RWD-1'')]) = Rejected
   \<and> targets [\<lparr>tab_id = Some 7\<rparr>, \<lparr>tab_id = Some 8\<rparr>, \<lparr>tab_id = Some 9\<rparr>] = [7, 8, 9]
   \<and> attempts (sendPauseToAMQ example_env (JObj [(''rewardId'', JStr ''RWD-1'')])) = [7, 8, 9]
   \<and> sendPauseToAMQ example_env (JObj [(''rewardId'', JStr ''RWD-1'')])
       = [PauseSent 7 True, FailedToSend 8, PauseSent 9 True]
   \<and> step (ESPause example_env (Parsed (JObj [(''rewardId'', JStr ''RWD-1'')]))) (step ESOpen started)
       = step ESOpen started"
proof -
  have q: "tabs_query example_env = Some [\<lparr>tab_id = Some 7\<rparr>, \<lparr>tab_id = Some 8\<rparr>, \<lparr>tab_id = Some 9\<rparr>]"
    by (simp add: example_env_def)
  have t: "targets [\<lparr>tab_id = Some 7\<rparr>, \<lparr>tab_id = Some 8\<rparr>, \<lparr>tab_id = Some 9\<rparr>] = [7, 8, 9]"
    by (simp add: targets_def)
  have l: "map (attempt_line (tabs_sendMessage example_env) (JObj [(''rewardId'', JStr ''RWD-1'')]))
             [7, 8, 9] = [PauseSent 7 True, FailedToSend 8, PauseSent 9 True]"
    by (simp add: attempt_line_def example_env_def)
  have r: "tabs_sendMessage example_env 8 (JObj [(''rewardId'', JStr ''RWD-1'')]) = Rejected"
    by (simp add: example_env_def)
  from delivery_isolates_failures [OF q, of "JObj [(''rewardId'', JStr ''RWD-1'')]" "step ESOpen started"]
    t l r
  show ?thesis
    by simp
qed

subsection \<open>Opening resets the retry counter\<close>

text \<open>
  C8. Every \<open>open\<close> signal of the transport sets \<open>reconnectAttempts\<close> to 0, whatever it
  was before: the handler itself does, and so does the step that dispatches the event to
  a connecting transport, which is then open. The next failure counts from zero and leaves
  the counter at 1.
\<close>

theorem open_resets_attempts:
  "reconnectAttempts (onopen w) = 0
   \<and> (eventSource w = Some CONNECTING \<longrightarrow>
        eventSource (step ESOpen w) = Some OPEN \<and> reconnectAttempts (step ESOpen w) = 0
        \<and> reconnectAttempts (step (ESError closed) (step ESOpen w)) = 1)"
  by (simp add: onopen_def step_def onerror_at_def MAX_RECONNECT_ATTEMPTS_def)

text \<open>After one failure and its reconnect the counter is 1; the open signal resets it.\<close>

theorem open_resets_attempts_witness:
  "reconnectAttempts (run [ESError False, TimerFires] started) = 1
   \<and> eventSource (run [ESError False, TimerFires] started) = Some CONNECTING
   \<and> eventSource (step ESOpen (run [ESError False, TimerFires] started)) = Some OPEN
   \<and> reconnectAttempts (step ESOpen (run [ESError False, TimerFires] started)) = 0
   \<and> reconnectAttempts
        (step (ESError True) (step ESOpen (run [ESError False, TimerFires] started))) = 1"
proof -
  have w: "run [ESError False, TimerFires] started =
           started\<lparr>reconnectAttempts := 1, constructed := 2\<rparr>"
    by (simp add: run_def started_eq onerror_at_eq MAX_RECONNECT_ATTEMPTS_def timer_fires_def
        connectSSE_passes gate_example_storage)
  have c: "eventSource (started\<lparr>reconnectAttempts := 1, constructed := 2\<rparr>) = Some CONNECTING"
    by (simp add: started_eq)
  from open_resets_attempts [of "started\<lparr>reconnectAttempts := 1, constructed := 2\<rparr>" True] c
  show ?thesis
    unfolding w by simp
qed

subsection \<open>An unparseable event\<close>

text \<open>
  C9, as the script behaves. When \<open>JSON.parse\<close> throws on the payload of a \<open>pause\<close>
  event, the event is discarded: no delivery is attempted, the transport is not torn down,
  and the connection, the counter and the timers are as before. The listener does not
  complete: the \<open>SyntaxError\<close> is not caught and leaves it (as a rejected promise of the
  asynchronous \<open>pause\<close> listener). The same holds for \<open>connected\<close> events.
\<close>

theorem unparseable_discarded:
  "pause_listener e ParseThrows w = (Uncaught SyntaxError, [], w)
   \<and> delivery_attempts (pause_listener e ParseThrows w) = []
   \<and> connected_listener ParseThrows w = (Uncaught SyntaxError, w)
   \<and> step (ESPause e ParseThrows) w = w
   \<and> step (ESConnected ParseThrows) w = w"
  by (simp add: pause_listener_def connected_listener_def step_def delivery_attempts_def)

text \<open>
  C9 as stated fails: on an open connection the pause listener ends an unparseable event
  with an uncaught \<open>SyntaxError\<close>, not by completing.
\<close>

theorem unparseable_completes_normally_counterexample:
  "eventSource (step ESOpen started) = Some OPEN
   \<and> fst (pause_listener example_env ParseThrows (step ESOpen started)) = Uncaught SyntaxError
   \<and> fst (pause_listener example_env ParseThrows (step ESOpen started)) \<noteq> Completed"
  by (simp add: pause_listener_def step_def started_eq onopen_def)

subsection \<open>The bound on the retry counter\<close>

lemma step_at_attempts:
  "reconnectAttempts (step_at mx ev w) = reconnectAttempts w
   \<or> reconnectAttempts (step_at mx ev w) = 0
   \<or> (reconnectAttempts w < mx \<and> reconnectAttempts (step_at mx ev w) = Suc (reconnectAttempts w))"
proof (cases ev)
  case (Message m)
  then show ?thesis
    by (cases m) (simp_all add: connectSSE_frame)
next
  case (ESPause e p)
  then show ?thesis
    by (simp add: pause_listener_def split: parse_result.splits sum.splits)
next
  case (ESConnected p)
  then show ?thesis
    by (simp add: connected_listener_def split: parse_result.splits)
qed (simp_all add: connectSSE_frame storage_onChanged_def timer_fires_def onopen_def onerror_at_eq)

lemma step_at_bound:
  "reconnectAttempts w \<le> mx \<Longrightarrow> reconnectAttempts (step_at mx ev w) \<le> mx"
  using step_at_attempts [of mx ev w] by auto

lemma run_at_bound:
  "reconnectAttempts w \<le> mx \<Longrightarrow> reconnectAttempts (run_at mx evs w) \<le> mx"
  by (induction evs arbitrary: w) (simp_all add: step_at_bound)

text \<open>
  C10. In every state that the script reaches from its start, \<open>reconnectAttempts\<close> is at
  most \<open>MAX_RECONNECT_ATTEMPTS\<close>, which is 10 (and it is a natural number, so at least 0).
  Every step preserves the bound: a step leaves the counter as it is, resets it to 0, or
  increments it by one from a value below the bound.
\<close>

theorem attempts_bounded:
  "reconnectAttempts (run evs (init st throws)) \<le> MAX_RECONNECT_ATTEMPTS
   \<and> MAX_RECONNECT_ATTEMPTS = 10
   \<and> (reconnectAttempts w \<le> MAX_RECONNECT_ATTEMPTS \<longrightarrow>
        reconnectAttempts (step ev w) \<le> MAX_RECONNECT_ATTEMPTS)
   \<and> (reconnectAttempts (step ev w) = reconnectAttempts w
        \<or> reconnectAttempts (step ev w) = 0
        \<or> (reconnectAttempts w < MAX_RECONNECT_ATTEMPTS
            \<and> reconnectAttempts (step ev w) = Suc (reconnectAttempts w)))"
proof -
  have "reconnectAttempts (init st throws) \<le> MAX_RECONNECT_ATTEMPTS"
    by (simp add: init_def)
  then have "reconnectAttempts (run evs (init st throws)) \<le> MAX_RECONNECT_ATTEMPTS"
    unfolding run_def by (rule run_at_bound)
  moreover have "MAX_RECONNECT_ATTEMPTS = 10"
    by (simp add: MAX_RECONNECT_ATTEMPTS_def)
  moreover have "reconnectAttempts w \<le> MAX_RECONNECT_ATTEMPTS \<longrightarrow>
        reconnectAttempts (step ev w) \<le> MAX_RECONNECT_ATTEMPTS"
    unfolding step_def by (simp add: step_at_bound)
  moreover have "reconnectAttempts (step ev w) = reconnectAttempts w
        \<or> reconnectAttempts (step ev w) = 0
        \<or> (reconnectAttempts w < MAX_RECONNECT_ATTEMPTS
            \<and> reconnectAttempts (step ev w) = Suc (reconnectAttempts w))"
    unfolding step_def by (rule step_at_attempts)
  ultimately show ?thesis
    by blast
qed

text \<open>The bound is reached: after eleven failures the counter is 10.\<close>

theorem attempts_bounded_witness:
  "reconnectAttempts (run (Startup # failures (replicate 11 False)) (init example_storage False))
     = 10
   \<and> reconnectAttempts (run (Startup # failures (replicate 11 False)) (init example_storage False))
     \<le> MAX_RECONNECT_ATTEMPTS"
proof -
  have "reconnectAttempts (run (Startup # failures (replicate 11 False)) (init example_storage False))
     = 10"
    by (simp add: run_def init_def MAX_RECONNECT_ATTEMPTS_def eval_nat_numeral timer_fires_def
        onerror_at_eq connectSSE_passes gate_example_storage)
  with attempts_bounded [of "Startup # failures (replicate 11 False)" example_storage False]
  show ?thesis
    by simp
qed

end
